theory Spec2Isabelle
  imports Complex_Main "HOL-Library.List_Lexorder" "HOL-Library.Char_ord"
begin

section \<open>Data model (apps/worker/src/db/types.ts)\<close>

text \<open>
  \<^verbatim>\<open>CrawlJobStatus\<close> and \<^verbatim>\<open>LabelJobStatus\<close> are the same five literals.
\<close>

datatype status = Queued | Running | Paused | Completed | Failed

text \<open>
  \<^verbatim>\<open>CrawlJobRow\<close> and \<^verbatim>\<open>LabelJobRow\<close> share every column but one
  (\<^verbatim>\<open>discovered_count\<close> against \<^verbatim>\<open>total_count\<close>): the shared columns are the
  base record, each table extends it. Text columns are strings, nullable columns are
  options, timestamps are the ISO strings of \<^verbatim>\<open>nowIso()\<close>, compared as text.
\<close>

record job_row =
  job_id :: string
  status :: status
  created_at :: string
  started_at :: "string option"
  finished_at :: "string option"
  config_json :: string
  processed_count :: int
  failed_count :: int
  last_error :: "string option"

record crawl_job_row = job_row +
  discovered_count :: int

record label_job_row = job_row +
  total_count :: int

record model_row =
  model_id :: string
  url :: string
  title :: "string option"
  author_name :: "string option"
  download_count :: "int option"
  cover_image_url :: "string option"
  description :: "string option"
  model_created_at :: string
  updated_at :: string

text \<open>The \<^verbatim>\<open>Discovered\<close> type of runCrawlJob; an absent or null field is \<open>None\<close>.\<close>

record discovered =
  disc_id :: string
  disc_url :: string
  disc_cover_image_url :: "string option"
  disc_title :: "string option"
  disc_author_name :: "string option"

section \<open>Worker count (crawl.ts, line 173)\<close>

text \<open>
  A JavaScript number: every finite double is a real number, and the operations used
  here (comparison, minimum, maximum, truncation) are exact on doubles.
\<close>

datatype jsnum = NaN | NegInf | Fin real | PosInf

text \<open>\<^verbatim>\<open>a || b\<close> on numbers: \<^verbatim>\<open>NaN\<close> and zero are falsy.\<close>

definition js_or :: "jsnum \<Rightarrow> jsnum \<Rightarrow> jsnum" where
  "js_or a b = (if a = NaN \<or> a = Fin 0 then b else a)"

fun Math_min :: "jsnum \<Rightarrow> jsnum \<Rightarrow> jsnum" where
  "Math_min NaN _ = NaN"
| "Math_min _ NaN = NaN"
| "Math_min NegInf _ = NegInf"
| "Math_min _ NegInf = NegInf"
| "Math_min PosInf b = b"
| "Math_min a PosInf = a"
| "Math_min (Fin x) (Fin y) = Fin (min x y)"

fun Math_max :: "jsnum \<Rightarrow> jsnum \<Rightarrow> jsnum" where
  "Math_max NaN _ = NaN"
| "Math_max _ NaN = NaN"
| "Math_max PosInf _ = PosInf"
| "Math_max _ PosInf = PosInf"
| "Math_max NegInf b = b"
| "Math_max a NegInf = a"
| "Math_max (Fin x) (Fin y) = Fin (max x y)"

text \<open>
  \<^verbatim>\<open>const concurrency = Math.max(1, Math.min(5, Number(config.concurrency) || 1))\<close>;
  the argument is the value of \<^verbatim>\<open>Number(config.concurrency)\<close> (\<^verbatim>\<open>NaN\<close> for a missing
  field).
\<close>

definition concurrency :: "jsnum \<Rightarrow> jsnum" where
  "concurrency c = Math_max (Fin 1) (Math_min (Fin 5) (js_or c (Fin 1)))"

text \<open>
  \<^verbatim>\<open>Array.from({ length: concurrency }, () => worker())\<close> makes \<^verbatim>\<open>ToLength(concurrency)\<close>
  workers: the length is truncated to an integer and clamped into \<open>[0, 2^53 - 1]\<close>.
\<close>

fun ToLength :: "jsnum \<Rightarrow> nat" where
  "ToLength NaN = 0"
| "ToLength NegInf = 0"
| "ToLength PosInf = 2 ^ 53 - 1"
| "ToLength (Fin x) = (if x \<le> 0 then 0 else min (nat \<lfloor>x\<rfloor>) (2 ^ 53 - 1))"

definition spawned_workers :: "jsnum \<Rightarrow> nat" where
  "spawned_workers c = ToLength (concurrency c)"

section \<open>Persisting discovered items (crawl.ts, persistDiscovered)\<close>

text \<open>SQL \<^verbatim>\<open>COALESCE(a, b)\<close>: the first argument unless it is null.\<close>

definition COALESCE :: "'a option \<Rightarrow> 'a option \<Rightarrow> 'a option" where
  "COALESCE a b = (case a of Some x \<Rightarrow> Some x | None \<Rightarrow> b)"

text \<open>
  The \<^verbatim>\<open>models\<close> table, keyed by its primary key. One row of the
  \<^verbatim>\<open>INSERT ... ON CONFLICT (id) DO UPDATE\<close>: a new identity is inserted with the
  sighting's fields, an existing one is updated, \<^verbatim>\<open>excluded\<close> being the sighting.
\<close>

definition upsert_discovered ::
    "string \<Rightarrow> discovered \<Rightarrow> (string \<rightharpoonup> model_row) \<Rightarrow> (string \<rightharpoonup> model_row)" where
  "upsert_discovered now it models =
     (case models (disc_id it) of
        None \<Rightarrow> models(disc_id it \<mapsto>
          \<lparr> model_id = disc_id it, url = disc_url it, title = disc_title it,
            author_name = disc_author_name it, download_count = None,
            cover_image_url = disc_cover_image_url it, description = None,
            model_created_at = now, updated_at = now \<rparr>)
      | Some r \<Rightarrow> models(disc_id it \<mapsto>
          r\<lparr> url := disc_url it,
             title := COALESCE (disc_title it) (title r),
             author_name := COALESCE (disc_author_name it) (author_name r),
             cover_image_url := COALESCE (disc_cover_image_url it) (cover_image_url r),
             updated_at := now \<rparr>))"

definition persistDiscovered ::
    "string \<Rightarrow> discovered list \<Rightarrow> (string \<rightharpoonup> model_row) \<Rightarrow> (string \<rightharpoonup> model_row)" where
  "persistDiscovered now items models =
     (if items = [] then models else fold (upsert_discovered now) items models)"

section \<open>Job tables: selection and recovery (index.ts)\<close>

text \<open>
  \<^verbatim>\<open>ORDER BY created_at DESC LIMIT 1\<close>: a row whose \<^verbatim>\<open>created_at\<close> is greatest. SQL
  leaves the choice among equal timestamps open; here the first such row of the table
  is taken.
\<close>

fun latest_created :: "'a job_row_scheme list \<Rightarrow> 'a job_row_scheme option" where
  "latest_created [] = None"
| "latest_created (r # rs) =
     (case latest_created rs of
        None \<Rightarrow> Some r
      | Some r' \<Rightarrow> if created_at r < created_at r' then Some r' else Some r)"

text \<open>
  \<^verbatim>\<open>.where("finished_at", "is", null).where("status", "in", ["queued", "running"])\<close>
\<close>

definition unfinished_active :: "'a job_row_scheme \<Rightarrow> bool" where
  "unfinished_active r \<longleftrightarrow> finished_at r = None \<and> (status r = Queued \<or> status r = Running)"

text \<open>\<^verbatim>\<open>updateTable(t).set({ status }).where("id", "=", id)\<close>\<close>

definition set_status_where_id ::
    "status \<Rightarrow> string \<Rightarrow> 'a job_row_scheme list \<Rightarrow> 'a job_row_scheme list" where
  "set_status_where_id st i rows = map (\<lambda>r. if job_id r = i then r\<lparr>status := st\<rparr> else r) rows"

record database =
  crawl_jobs :: "crawl_job_row list"
  label_jobs :: "label_job_row list"

text \<open>A callback handed to \<^verbatim>\<open>setTimeout\<close>, paired with its delay in milliseconds.\<close>

datatype callback = RunCrawlJob string | RunLabelJob string

text \<open>
  \<^verbatim>\<open>resume\<close>, called once from the \<^verbatim>\<open>app.listen\<close> callback: the crawl table, then the
  label table. The result is the database and the timers set.
\<close>

definition resume :: "database \<Rightarrow> database \<times> (nat \<times> callback) list" where
  "resume db =
     (let (db1, t1) =
            (case latest_created (filter unfinished_active (crawl_jobs db)) of
               None \<Rightarrow> (db, [])
             | Some crawl \<Rightarrow>
                 (db\<lparr>crawl_jobs := set_status_where_id Queued (job_id crawl) (crawl_jobs db)\<rparr>,
                  [(200, RunCrawlJob (job_id crawl))]));
          (db2, t2) =
            (case latest_created (filter unfinished_active (label_jobs db1)) of
               None \<Rightarrow> (db1, [])
             | Some label \<Rightarrow>
                 (db1\<lparr>label_jobs := set_status_where_id Queued (job_id label) (label_jobs db1)\<rparr>,
                  [(200, RunLabelJob (job_id label))]))
      in (db2, t1 @ t2))"

section \<open>Session cookie of a label run (label.ts, makerworld.ts)\<close>

datatype json =
    JNull
  | JBool bool
  | JNumber real
  | JString string
  | JArray "json list"
  | JObject "(string \<times> json) list"

text \<open>
  \<^verbatim>\<open>parsed?.key\<close>: the own property of an object (its keys are unique after
  \<^verbatim>\<open>JSON.parse\<close>); \<^verbatim>\<open>undefined\<close> on null and on every other parsed value, none of
  which has such a property.
\<close>

fun member :: "json \<Rightarrow> string \<Rightarrow> json option" where
  "member (JObject kvs) k = map_of kvs k"
| "member _ k = None"

text \<open>
  The \<^verbatim>\<open>cookieHeader\<close> computed by runLabelJob. \<^verbatim>\<open>JSON.parse\<close> is a parameter,
  \<open>None\<close> where it throws; \<open>None\<close> as a result is \<^verbatim>\<open>undefined\<close>.
\<close>

definition label_cookieHeader ::
    "(string \<Rightarrow> json option) \<Rightarrow> crawl_job_row list \<Rightarrow> string option" where
  "label_cookieHeader JSON_parse rows =
     (case latest_created rows of
        None \<Rightarrow> None
      | Some latestCrawl \<Rightarrow>
          (case JSON_parse (config_json latestCrawl) of
             None \<Rightarrow> None
           | Some parsed \<Rightarrow>
               (case member parsed ''cookieHeader'' of
                  Some (JString c) \<Rightarrow> Some c
                | _ \<Rightarrow> None)))"

text \<open>
  \<^verbatim>\<open>createContext\<close>, as far as the cookie goes: the \<^verbatim>\<open>cookie\<close> header given to
  \<^verbatim>\<open>setExtraHTTPHeaders\<close>, \<open>None\<close> when it is not called. The guard
  \<^verbatim>\<open>if (options?.cookieHeader)\<close> is false for \<^verbatim>\<open>undefined\<close> and for the empty string.
\<close>

definition createContext :: "string option \<Rightarrow> string option" where
  "createContext cookieHeader =
     (case cookieHeader of
        None \<Rightarrow> None
      | Some c \<Rightarrow> if c = [] then None else Some c)"

definition label_context_cookie ::
    "(string \<Rightarrow> json option) \<Rightarrow> crawl_job_row list \<Rightarrow> string option" where
  "label_context_cookie JSON_parse rows = createContext (label_cookieHeader JSON_parse rows)"

section \<open>Operations on a job row\<close>

text \<open>
  A run addresses one row, \<^verbatim>\<open>where("id", "=", jobId)\<close>: the store is that row, or
  \<open>None\<close> when the table has no such row, and an \<^verbatim>\<open>UPDATE\<close> of a missing row does
  nothing. \<^verbatim>\<open>updateStatus(status, patch)\<close> is \<^verbatim>\<open>set({ status, ...patch })\<close>.
\<close>

definition updateStatus ::
    "status \<Rightarrow> ('a job_row_scheme \<Rightarrow> 'a job_row_scheme) \<Rightarrow>
     'a job_row_scheme option \<Rightarrow> 'a job_row_scheme option" where
  "updateStatus st patch row = map_option (\<lambda>r. patch (r\<lparr>status := st\<rparr>)) row"

text \<open>The pause and resume endpoints, and the clearing done before a new crawl or import.\<close>

definition pause_job :: "'a job_row_scheme option \<Rightarrow> 'a job_row_scheme option" where
  "pause_job row = map_option (\<lambda>r. r\<lparr>status := Paused\<rparr>) row"

definition resume_job :: "'a job_row_scheme option \<Rightarrow> 'a job_row_scheme option" where
  "resume_job row = map_option (\<lambda>r. r\<lparr>status := Running\<rparr>) row"

definition clear_history ::
    "string \<Rightarrow> string \<Rightarrow> 'a job_row_scheme option \<Rightarrow> 'a job_row_scheme option" where
  "clear_history now message row =
     map_option (\<lambda>r. if finished_at r = None
        then r\<lparr>status := Failed, finished_at := Some now, last_error := Some message\<rparr>
        else r) row"

text \<open>The rows inserted by \<^verbatim>\<open>POST /api/crawl-jobs\<close> and \<^verbatim>\<open>POST /api/label-jobs\<close>.\<close>

definition new_crawl_job :: "string \<Rightarrow> string \<Rightarrow> string \<Rightarrow> crawl_job_row" where
  "new_crawl_job i now cfg =
     \<lparr> job_id = i, status = Queued, created_at = now, started_at = None, finished_at = None,
       config_json = cfg, processed_count = 0, failed_count = 0, last_error = None,
       discovered_count = 0 \<rparr>"

definition new_label_job :: "string \<Rightarrow> string \<Rightarrow> string \<Rightarrow> label_job_row" where
  "new_label_job i now cfg =
     \<lparr> job_id = i, status = Queued, created_at = now, started_at = None, finished_at = None,
       config_json = cfg, processed_count = 0, failed_count = 0, last_error = None,
       total_count = 0 \<rparr>"

text \<open>
  One poll of \<^verbatim>\<open>waitIfPausedOrCancelled\<close>: the row read, then the three ways on.
  \<open>Sleep\<close> waits a second and polls again; \<open>Cancelled\<close> is
  \<^verbatim>\<open>throw new Error("JOB_CANCELLED")\<close>.
\<close>

datatype proceed = Proceed | Sleep | Cancelled

definition waitIfPausedOrCancelled :: "'a job_row_scheme option \<Rightarrow> proceed" where
  "waitIfPausedOrCancelled current =
     (case current of
        None \<Rightarrow> Cancelled
      | Some c \<Rightarrow>
          if status c = Paused then Sleep
          else if status c \<noteq> Running then Cancelled
          else Proceed)"

text \<open>The invariant of the data model: finished exactly when completed or failed.\<close>

definition finished_iff_terminal :: "'a job_row_scheme option \<Rightarrow> bool" where
  "finished_iff_terminal row =
     (case row of
        None \<Rightarrow> True
      | Some r \<Rightarrow> (finished_at r \<noteq> None) = (status r = Completed \<or> status r = Failed))"

section \<open>The crawl run (crawl.ts, runCrawlJob)\<close>

text \<open>
  JavaScript runs one piece of code at a time and switches only at an \<^verbatim>\<open>await\<close>: the
  run is a set of threads (the body of runCrawlJob, the workers, the response handler)
  whose code between two awaits is one atomic step. The state holds the job row and the
  variables the threads share; an event names the thread that takes its next step, or
  an outside actor. The \<^verbatim>\<open>models\<close> and \<^verbatim>\<open>model_images\<close> tables are not part of this
  state: no step below reads them. What Node does with a rejected promise that nothing
  awaits is not part of it either.

  What the Page Extractor does with a URL is a parameter: it returns, or throws an error
  with a message.
\<close>

datatype outcome = Succeeded | Thrown string

type_synonym queue_item = "string \<times> string"

text \<open>
  Where a worker stands: about to poll the job row; in \<^verbatim>\<open>getNext\<close>, about to look at the
  queue; suspended on the promise of \<^verbatim>\<open>getNext\<close>; scraping the item it took; returned;
  or rejected with \<^verbatim>\<open>JOB_CANCELLED\<close>.
\<close>

datatype wstate = WCheck | WGetNext | WBlocked | WScraping queue_item | WReturned | WCancelled

text \<open>
  Where the body of runCrawlJob stands: not entered; status written; workers spawned and
  discovery going on; at \<^verbatim>\<open>await workerPromise\<close>; returned; or rejected before its
  \<^verbatim>\<open>try\<close> (job not found, config not parsed).
\<close>

datatype mstate = MInit | MStarted | MDiscovering | MAwaitWorkers | MReturned | MRejected

record crawl_state =
  job :: "crawl_job_row option"
  main :: mstate
  config_concurrency :: jsnum
  queue :: "queue_item list"
  queueIndex :: nat
  discoveryDone :: bool
  wake :: "nat option"
  workers :: "wstate list"
  listening :: bool

text \<open>
  \<open>wake\<close> holds the resolver of the promise one worker waits on, named by that worker's
  index. Calling it lets that worker go round the loop of \<^verbatim>\<open>getNext\<close> again.
\<close>

definition wake_up :: "crawl_state \<Rightarrow> crawl_state" where
  "wake_up s =
     (case wake s of
        None \<Rightarrow> s
      | Some w \<Rightarrow> s\<lparr>wake := None, workers := (workers s)[w := WGetNext]\<rparr>)"

definition push :: "discovered list \<Rightarrow> crawl_state \<Rightarrow> crawl_state" where
  "push items s =
     (if items = [] then s
      else wake_up (s\<lparr>queue := queue s @ map (\<lambda>it. (disc_id it, disc_url it)) items\<rparr>))"

definition getNext :: "nat \<Rightarrow> crawl_state \<Rightarrow> crawl_state" where
  "getNext w s =
     (if queueIndex s < length (queue s)
      then s\<lparr>queueIndex := queueIndex s + 1,
             workers := (workers s)[w := WScraping (queue s ! queueIndex s)]\<rparr>
      else if discoveryDone s then s\<lparr>workers := (workers s)[w := WReturned]\<rparr>
      else s\<lparr>wake := Some w, workers := (workers s)[w := WBlocked]\<rparr>)"

text \<open>The end of one scrape: the success path, the hard block, any other error.\<close>

definition scraped ::
    "(string \<Rightarrow> outcome) \<Rightarrow> string \<Rightarrow> nat \<Rightarrow> queue_item \<Rightarrow> crawl_state \<Rightarrow> crawl_state" where
  "scraped scrapeModelPage now w v s =
     (case scrapeModelPage (snd v) of
        Succeeded \<Rightarrow>
          s\<lparr>job := map_option (\<lambda>r. r\<lparr>processed_count := processed_count r + 1\<rparr>) (job s),
            workers := (workers s)[w := WCheck]\<rparr>
      | Thrown message \<Rightarrow>
          if message = ''CLOUDFLARE_BLOCKED''
          then s\<lparr>job := updateStatus Failed
                   (\<lambda>r. r\<lparr>finished_at := Some now, last_error := Some message\<rparr>) (job s),
                 workers := (workers s)[w := WReturned]\<rparr>
          else s\<lparr>job := map_option
                   (\<lambda>r. r\<lparr>failed_count := failed_count r + 1, last_error := Some message\<rparr>)
                   (job s),
                 workers := (workers s)[w := WCheck]\<rparr>)"

definition worker ::
    "(string \<Rightarrow> outcome) \<Rightarrow> string \<Rightarrow> nat \<Rightarrow> crawl_state \<Rightarrow> crawl_state" where
  "worker scrapeModelPage now w s =
     (if w < length (workers s) then
        (case workers s ! w of
           WCheck \<Rightarrow>
             (case waitIfPausedOrCancelled (job s) of
                Proceed \<Rightarrow> s\<lparr>workers := (workers s)[w := WGetNext]\<rparr>
              | Sleep \<Rightarrow> s
              | Cancelled \<Rightarrow> s\<lparr>workers := (workers s)[w := WCancelled]\<rparr>)
         | WGetNext \<Rightarrow> getNext w s
         | WBlocked \<Rightarrow> s
         | WScraping v \<Rightarrow> scraped scrapeModelPage now w v s
         | WReturned \<Rightarrow> s
         | WCancelled \<Rightarrow> s)
      else s)"

text \<open>The \<^verbatim>\<open>catch\<close> at the end of runCrawlJob.\<close>

definition catch_handler :: "string \<Rightarrow> string \<Rightarrow> crawl_state \<Rightarrow> crawl_state" where
  "catch_handler now message s =
     (if message = ''JOB_CANCELLED'' then s\<lparr>main := MReturned\<rparr>
      else s\<lparr>job := updateStatus Failed
                (\<lambda>r. r\<lparr>finished_at := Some now, last_error := Some message\<rparr>) (job s),
             main := MReturned\<rparr>)"

text \<open>
  Lines 17 to 30. The first parameter stands for \<^verbatim>\<open>JSON.parse\<close> followed by
  \<^verbatim>\<open>Number(config.concurrency)\<close>; it is \<open>None\<close> where \<^verbatim>\<open>JSON.parse\<close> throws.
\<close>

definition start ::
    "(string \<Rightarrow> jsnum option) \<Rightarrow> string \<Rightarrow> crawl_state \<Rightarrow> crawl_state" where
  "start parse_concurrency now s =
     (if main s \<noteq> MInit then s
      else case job s of
        None \<Rightarrow> s\<lparr>main := MRejected\<rparr>
      | Some j \<Rightarrow>
          (case parse_concurrency (config_json j) of
             None \<Rightarrow> s\<lparr>main := MRejected\<rparr>
           | Some c \<Rightarrow>
               s\<lparr>job := updateStatus Running
                        (\<lambda>r. r\<lparr>started_at := Some now, last_error := None\<rparr>) (job s),
                 config_concurrency := c,
                 main := MStarted\<rparr>))"

text \<open>
  Lines 173 to 237: every worker runs up to its first poll, the listing page is opened and
  the response handler is attached to it (\<open>listening\<close>).
\<close>

definition spawn :: "crawl_state \<Rightarrow> crawl_state" where
  "spawn s =
     (if main s = MStarted
      then s\<lparr>workers := replicate (spawned_workers (config_concurrency s)) WCheck,
             listening := True,
             main := MDiscovering\<rparr>
      else s)"

text \<open>The poll at the head of each scroll iteration.\<close>

definition poll :: "string \<Rightarrow> crawl_state \<Rightarrow> crawl_state" where
  "poll now s =
     (if main s = MDiscovering then
        (case waitIfPausedOrCancelled (job s) of
           Cancelled \<Rightarrow> catch_handler now ''JOB_CANCELLED'' s
         | _ \<Rightarrow> s)
      else s)"

text \<open>
  A batch found by either strategy is pushed, and counted in a later step. The response
  handler is detached on the normal path only (line 380), after discovery has ended, and
  a call of it that is under way goes on even then; on an early return of the body (the
  listing-page challenge, \<^verbatim>\<open>JOB_CANCELLED\<close>, an exception) it stays attached. So once
  it is attached a batch can arrive, and be counted, whatever the body does.
\<close>

definition push_batch :: "discovered list \<Rightarrow> crawl_state \<Rightarrow> crawl_state" where
  "push_batch items s = (if listening s then push items s else s)"

definition count_discovered :: "int \<Rightarrow> crawl_state \<Rightarrow> crawl_state" where
  "count_discovered n s =
     (if listening s
      then s\<lparr>job := map_option (\<lambda>r. r\<lparr>discovered_count := discovered_count r + n\<rparr>) (job s)\<rparr>
      else s)"

text \<open>Lines 240 to 244: challenge markers on the listing page.\<close>

definition list_blocked :: "string \<Rightarrow> crawl_state \<Rightarrow> crawl_state" where
  "list_blocked now s =
     (if main s = MDiscovering
      then s\<lparr>job := updateStatus Failed
                 (\<lambda>r. r\<lparr>finished_at := Some now, last_error := Some ''CLOUDFLARE_BLOCKED''\<rparr>)
                 (job s),
             main := MReturned\<rparr>
      else s)"

text \<open>Lines 373 to 378.\<close>

definition end_of_input :: "crawl_state \<Rightarrow> crawl_state" where
  "end_of_input s =
     (if main s = MDiscovering
      then (wake_up (s\<lparr>discoveryDone := True\<rparr>))\<lparr>main := MAwaitWorkers\<rparr>
      else s)"

text \<open>
  Lines 383 to 385. \<^verbatim>\<open>Promise.all\<close> rejects as soon as one worker has rejected, and is
  fulfilled once every worker has returned.
\<close>

definition join :: "string \<Rightarrow> crawl_state \<Rightarrow> crawl_state" where
  "join now s =
     (if main s \<noteq> MAwaitWorkers then s
      else if WCancelled \<in> set (workers s) then catch_handler now ''JOB_CANCELLED'' s
      else if list_all (\<lambda>w. w = WReturned) (workers s)
      then s\<lparr>job := updateStatus Completed (\<lambda>r. r\<lparr>finished_at := Some now\<rparr>) (job s),
             main := MReturned\<rparr>
      else s)"

text \<open>Any other exception inside the \<^verbatim>\<open>try\<close> of the body.\<close>

definition throw :: "string \<Rightarrow> string \<Rightarrow> crawl_state \<Rightarrow> crawl_state" where
  "throw now message s =
     (if main s = MStarted \<or> main s = MDiscovering \<or> main s = MAwaitWorkers
      then catch_handler now message s
      else s)"

datatype event =
    Start string
  | Spawn
  | WorkerStep nat string
  | Poll string
  | PushBatch "discovered list"
  | CountDiscovered int
  | ListBlocked string
  | EndOfInput
  | Join string
  | Throw string string
  | Pause
  | Resume
  | ClearHistory string string

fun step ::
    "(string \<Rightarrow> jsnum option) \<Rightarrow> (string \<Rightarrow> outcome) \<Rightarrow> event \<Rightarrow> crawl_state \<Rightarrow> crawl_state"
  where
  "step P S (Start now) s = start P now s"
| "step P S Spawn s = spawn s"
| "step P S (WorkerStep w now) s = worker S now w s"
| "step P S (Poll now) s = poll now s"
| "step P S (PushBatch items) s = push_batch items s"
| "step P S (CountDiscovered n) s = count_discovered n s"
| "step P S (ListBlocked now) s = list_blocked now s"
| "step P S EndOfInput s = end_of_input s"
| "step P S (Join now) s = join now s"
| "step P S (Throw now message) s = throw now message s"
| "step P S Pause s = s\<lparr>job := pause_job (job s)\<rparr>"
| "step P S Resume s = s\<lparr>job := resume_job (job s)\<rparr>"
| "step P S (ClearHistory now message) s = s\<lparr>job := clear_history now message (job s)\<rparr>"

fun run ::
    "(string \<Rightarrow> jsnum option) \<Rightarrow> (string \<Rightarrow> outcome) \<Rightarrow> event list \<Rightarrow>
     crawl_state \<Rightarrow> crawl_state" where
  "run P S [] s = s"
| "run P S (e # es) s = run P S es (step P S e s)"


text \<open>The state in which runCrawlJob is called on a job row.\<close>

definition init :: "crawl_job_row option \<Rightarrow> crawl_state" where
  "init row =
     \<lparr> job = row, main = MInit, config_concurrency = NaN, queue = [], queueIndex = 0,
       discoveryDone = False, wake = None, workers = [], listening = False \<rparr>"




section \<open>The label run (label.ts, runLabelJob)\<close>

text \<open>
  One thread. The candidates are the ids the selection query returns; what happens to
  one candidate between the poll and the counter update (stored images, the Page
  Extractor when fewer than two are stored, the labelling call, the insert) is a
  parameter that returns or throws.
\<close>

datatype lstate =
    LInit
  | LStarted
  | LCheck "string list"
  | LWork string "string list"
  | LReturned
  | LRejected

record label_state =
  ljob :: "label_job_row option"
  lmain :: lstate

text \<open>The \<^verbatim>\<open>catch\<close> at the end of runLabelJob.\<close>

definition label_catch_handler :: "string \<Rightarrow> string \<Rightarrow> label_state \<Rightarrow> label_state" where
  "label_catch_handler now message s =
     (if message = ''JOB_CANCELLED'' then s\<lparr>lmain := LReturned\<rparr>
      else s\<lparr>ljob := updateStatus Failed
                 (\<lambda>r. r\<lparr>finished_at := Some now, last_error := Some message\<rparr>) (ljob s),
             lmain := LReturned\<rparr>)"

text \<open>
  The next step of the thread: lines 13 to 26 from \<open>LInit\<close> (a missing job returns, a
  config that does not parse rejects); the poll, or the completion once no candidate is
  left, from \<open>LCheck\<close>; the end of one candidate from \<open>LWork\<close>.
\<close>

definition label_next ::
    "(string \<Rightarrow> json option) \<Rightarrow> (string \<Rightarrow> outcome) \<Rightarrow> string \<Rightarrow> label_state \<Rightarrow> label_state"
  where
  "label_next JSON_parse process now s =
     (case lmain s of
        LInit \<Rightarrow>
          (case ljob s of
             None \<Rightarrow> s\<lparr>lmain := LReturned\<rparr>
           | Some j \<Rightarrow>
               (case JSON_parse (config_json j) of
                  None \<Rightarrow> s\<lparr>lmain := LRejected\<rparr>
                | Some config \<Rightarrow>
                    s\<lparr>ljob := updateStatus Running
                             (\<lambda>r. r\<lparr>started_at := Some now, last_error := None\<rparr>) (ljob s),
                      lmain := LStarted\<rparr>))
      | LStarted \<Rightarrow> s
      | LCheck [] \<Rightarrow>
          s\<lparr>ljob := updateStatus Completed (\<lambda>r. r\<lparr>finished_at := Some now\<rparr>) (ljob s),
            lmain := LReturned\<rparr>
      | LCheck (row # rows) \<Rightarrow>
          (case waitIfPausedOrCancelled (ljob s) of
             Proceed \<Rightarrow> s\<lparr>lmain := LWork row rows\<rparr>
           | Sleep \<Rightarrow> s
           | Cancelled \<Rightarrow> label_catch_handler now ''JOB_CANCELLED'' s)
      | LWork row rows \<Rightarrow>
          (case process row of
             Succeeded \<Rightarrow>
               s\<lparr>ljob := map_option (\<lambda>r. r\<lparr>processed_count := processed_count r + 1\<rparr>) (ljob s),
                 lmain := LCheck rows\<rparr>
           | Thrown message \<Rightarrow>
               s\<lparr>ljob := map_option
                        (\<lambda>r. r\<lparr>failed_count := failed_count r + 1, last_error := Some message\<rparr>)
                        (ljob s),
                 lmain := LCheck rows\<rparr>)
      | LReturned \<Rightarrow> s
      | LRejected \<Rightarrow> s)"

text \<open>Lines 55 to 57: the candidates are fixed, and counted, before the loop.\<close>

definition label_select :: "string list \<Rightarrow> label_state \<Rightarrow> label_state" where
  "label_select candidates s =
     (if lmain s = LStarted
      then s\<lparr>ljob := map_option (\<lambda>r. r\<lparr>total_count := int (length candidates)\<rparr>) (ljob s),
             lmain := LCheck candidates\<rparr>
      else s)"

text \<open>An exception outside the per-candidate \<^verbatim>\<open>try\<close>.\<close>

definition label_throw :: "string \<Rightarrow> string \<Rightarrow> label_state \<Rightarrow> label_state" where
  "label_throw now message s =
     (case lmain s of
        LStarted \<Rightarrow> label_catch_handler now message s
      | LCheck rows \<Rightarrow> label_catch_handler now message s
      | _ \<Rightarrow> s)"

datatype label_event =
    LNext string
  | LSelect "string list"
  | LThrow string string
  | LPause
  | LResume
  | LClearHistory string string

fun label_step ::
    "(string \<Rightarrow> json option) \<Rightarrow> (string \<Rightarrow> outcome) \<Rightarrow> label_event \<Rightarrow>
     label_state \<Rightarrow> label_state" where
  "label_step P L (LNext now) s = label_next P L now s"
| "label_step P L (LSelect candidates) s = label_select candidates s"
| "label_step P L (LThrow now message) s = label_throw now message s"
| "label_step P L LPause s = s\<lparr>ljob := pause_job (ljob s)\<rparr>"
| "label_step P L LResume s = s\<lparr>ljob := resume_job (ljob s)\<rparr>"
| "label_step P L (LClearHistory now message) s = s\<lparr>ljob := clear_history now message (ljob s)\<rparr>"

fun label_run ::
    "(string \<Rightarrow> json option) \<Rightarrow> (string \<Rightarrow> outcome) \<Rightarrow> label_event list \<Rightarrow>
     label_state \<Rightarrow> label_state" where
  "label_run P L [] s = s"
| "label_run P L (e # es) s = label_run P L es (label_step P L e s)"

text \<open>The events of the run itself, as against those of an outside actor.\<close>

fun own_event :: "label_event \<Rightarrow> bool" where
  "own_event (LNext now) = True"
| "own_event (LSelect candidates) = True"
| "own_event (LThrow now message) = True"
| "own_event _ = False"

section \<open>Predicates used in the statements\<close>

text \<open>A row that is missing or not yet finished.\<close>

definition unfinished :: "'a job_row_scheme option \<Rightarrow> bool" where
  "unfinished row = (case row of None \<Rightarrow> True | Some r \<Rightarrow> finished_at r = None)"

text \<open>
  The events of the body of runCrawlJob, as against those of a worker, of the response
  handler and of an outside actor.
\<close>

fun body_event :: "event \<Rightarrow> bool" where
  "body_event (Start now) = True"
| "body_event Spawn = True"
| "body_event (Poll now) = True"
| "body_event (ListBlocked now) = True"
| "body_event EndOfInput = True"
| "body_event (Join now) = True"
| "body_event (Throw now message) = True"
| "body_event _ = False"

text \<open>
  The events that write the status and leave \<^verbatim>\<open>finished_at\<close> as it is: the start of a
  run and the two endpoints.
\<close>

fun status_flip :: "event \<Rightarrow> bool" where
  "status_flip (Start now) = True"
| "status_flip Pause = True"
| "status_flip Resume = True"
| "status_flip _ = False"

fun label_status_flip :: "label_event \<Rightarrow> label_state \<Rightarrow> bool" where
  "label_status_flip (LNext now) s = (lmain s = LInit)"
| "label_status_flip LPause s = True"
| "label_status_flip LResume s = True"
| "label_status_flip _ s = False"

text \<open>
  A worker suspended in \<^verbatim>\<open>getNext\<close> whose resolver is no longer held by \<open>wake\<close>, in a
  run that has spawned its workers and is not completed.
\<close>

definition lost :: "nat \<Rightarrow> crawl_state \<Rightarrow> bool" where
  "lost w s \<longleftrightarrow> w < length (workers s) \<and> workers s ! w = WBlocked \<and> wake s \<noteq> Some w \<and>
     main s \<noteq> MInit \<and> main s \<noteq> MStarted \<and> map_option status (job s) \<noteq> Some Completed"










section \<open>Theorems\<close>

subsection \<open>Worker count\<close>

lemma concurrency_cases:
  "concurrency c =
     (case c of
        Fin x \<Rightarrow> if x = 0 then Fin 1 else Fin (max 1 (min 5 x))
      | PosInf \<Rightarrow> Fin 5
      | NegInf \<Rightarrow> Fin 1
      | NaN \<Rightarrow> Fin 1)"
  by (cases c) (auto simp: concurrency_def js_or_def)

text \<open>
  C9, as stated, at a fractional value: the stored concurrency 2.5 is already inside
  \<open>[1, 5]\<close>, so clamping leaves 2.5, but two workers are spawned.
\<close>

theorem spawned_workers_fraction_counterexample:
  "concurrency (Fin (5 / 2)) = Fin (5 / 2) \<and> spawned_workers (Fin (5 / 2)) = 2 \<and>
   Fin (real (spawned_workers (Fin (5 / 2)))) \<noteq> concurrency (Fin (5 / 2))"
  by (simp add: spawned_workers_def concurrency_cases)

text \<open>
  C9 (amended): the number of workers spawned is the coerced concurrency clamped into
  \<open>[1, 5]\<close> and truncated to a whole number; it is always between 1 and 5; it is 1
  whenever the value does not coerce to a positive number (\<^verbatim>\<open>NaN\<close> for a missing or
  non-numeric field, zero, a negative number); and for a whole number it is exactly the
  clamped value.
\<close>

theorem spawned_workers_clamped:
  "1 \<le> spawned_workers c \<and> spawned_workers c \<le> 5 \<and>
   spawned_workers c =
     (case c of Fin x \<Rightarrow> nat \<lfloor>max 1 (min 5 x)\<rfloor> | PosInf \<Rightarrow> 5 | _ \<Rightarrow> 1) \<and>
   ((c = NaN \<or> c = NegInf \<or> (\<exists>x. c = Fin x \<and> x \<le> 0)) \<longrightarrow> spawned_workers c = 1) \<and>
   (\<forall>n::nat. c = Fin (real n) \<longrightarrow> spawned_workers c = max 1 (min 5 n))"
  by (cases c)
    (auto simp: spawned_workers_def concurrency_cases max_def min_def le_nat_iff nat_le_iff
      floor_le_iff le_floor_iff split: if_splits)

theorem spawned_workers_clamped_witness:
  "spawned_workers NaN = 1 \<and> spawned_workers (Fin 0) = 1 \<and>
   spawned_workers (Fin (real 3)) = 3 \<and> spawned_workers (Fin (real 9)) = 5 \<and>
   spawned_workers (Fin (7 / 2)) = 3"
  using spawned_workers_clamped [of NaN] spawned_workers_clamped [of "Fin 0"]
    spawned_workers_clamped [of "Fin (real 3)"] spawned_workers_clamped [of "Fin (real 9)"]
    spawned_workers_clamped [of "Fin (7 / 2)"]
  by simp

subsection \<open>Persisting discovered items\<close>

lemma upsert_discovered_other:
  "i \<noteq> disc_id it \<Longrightarrow> upsert_discovered now it m i = m i"
  by (simp add: upsert_discovered_def split: option.splits)

lemma fold_upsert_discovered_other:
  "i \<notin> disc_id ` set items \<Longrightarrow> fold (upsert_discovered now) items m i = m i"
  by (induction items arbitrary: m) (auto simp: upsert_discovered_other)

lemma upsert_discovered_existing:
  "m (disc_id it) = Some r \<Longrightarrow>
   upsert_discovered now it m (disc_id it) =
     Some (r\<lparr> url := disc_url it,
             title := COALESCE (disc_title it) (title r),
             author_name := COALESCE (disc_author_name it) (author_name r),
             cover_image_url := COALESCE (disc_cover_image_url it) (cover_image_url r),
             updated_at := now \<rparr>)"
  by (simp add: upsert_discovered_def)

lemma fold_upsert_discovered_existing:
  "distinct (map disc_id items) \<Longrightarrow> it \<in> set items \<Longrightarrow> m (disc_id it) = Some r \<Longrightarrow>
   fold (upsert_discovered now) items m (disc_id it) =
     Some (r\<lparr> url := disc_url it,
             title := COALESCE (disc_title it) (title r),
             author_name := COALESCE (disc_author_name it) (author_name r),
             cover_image_url := COALESCE (disc_cover_image_url it) (cover_image_url r),
             updated_at := now \<rparr>)"
proof (induction items arbitrary: m)
  case Nil
  then show ?case by simp
next
  case (Cons a items)
  show ?case
  proof (cases "a = it")
    case True
    have "disc_id it \<notin> disc_id ` set items"
      using Cons.prems(1) True by auto
    then show ?thesis
      using True Cons.prems(3)
      by (simp add: fold_upsert_discovered_other upsert_discovered_existing)
  next
    case False
    then have in_rest: "it \<in> set items"
      using Cons.prems(2) by simp
    have "disc_id a \<notin> disc_id ` set items"
      using Cons.prems(1) by simp
    then have ne: "disc_id it \<noteq> disc_id a"
      using in_rest by (metis imageI)
    have "upsert_discovered now a m (disc_id it) = Some r"
      using ne Cons.prems(3) by (simp add: upsert_discovered_other)
    then show ?thesis
      using Cons.IH [OF _ in_rest] Cons.prems(1) by simp
  qed
qed

text \<open>
  C2, as stated, fails: the identity 1 is first sighted with the title "First title";
  a later sighting that carries the title "Later title" is persisted, and the stored,
  populated title is replaced by it.
\<close>

theorem persistDiscovered_overwrites_counterexample:
  "map_option title
     (persistDiscovered ''t0''
        [\<lparr> disc_id = ''1'', disc_url = ''https://makerworld.com/zh/models/1'',
           disc_cover_image_url = None, disc_title = Some ''First title'',
           disc_author_name = None \<rparr>] Map.empty ''1'') = Some (Some ''First title'') \<and>
   map_option title
     (persistDiscovered ''t1''
        [\<lparr> disc_id = ''1'', disc_url = ''https://makerworld.com/zh/models/1'',
           disc_cover_image_url = None, disc_title = Some ''Later title'',
           disc_author_name = None \<rparr>]
        (persistDiscovered ''t0''
           [\<lparr> disc_id = ''1'', disc_url = ''https://makerworld.com/zh/models/1'',
              disc_cover_image_url = None, disc_title = Some ''First title'',
              disc_author_name = None \<rparr>] Map.empty) ''1'') = Some (Some ''Later title'')"
  by (simp add: persistDiscovered_def upsert_discovered_def COALESCE_def)

text \<open>
  C2 (amended): when a later sighting of a stored identity is persisted, each of title,
  author and cover takes the sighting's value when the sighting has one and keeps the
  stored value otherwise. So a missing field is filled in, a populated field is never
  cleared, and a populated field changes only to the value a later sighting carries.
\<close>

theorem persistDiscovered_later_sighting:
  assumes "distinct (map disc_id items)" and "it \<in> set items"
    and "models (disc_id it) = Some r"
  shows "\<exists>r'. persistDiscovered now items models (disc_id it) = Some r' \<and>
     title r' = (case disc_title it of Some t \<Rightarrow> Some t | None \<Rightarrow> title r) \<and>
     author_name r' =
       (case disc_author_name it of Some a \<Rightarrow> Some a | None \<Rightarrow> author_name r) \<and>
     cover_image_url r' =
       (case disc_cover_image_url it of Some c \<Rightarrow> Some c | None \<Rightarrow> cover_image_url r) \<and>
     (title r \<noteq> None \<longrightarrow> title r' \<noteq> None) \<and>
     (author_name r \<noteq> None \<longrightarrow> author_name r' \<noteq> None) \<and>
     (cover_image_url r \<noteq> None \<longrightarrow> cover_image_url r' \<noteq> None)"
proof -
  have "items \<noteq> []"
    using assms(2) by auto
  then have "persistDiscovered now items models (disc_id it) =
     Some (r\<lparr> url := disc_url it,
             title := COALESCE (disc_title it) (title r),
             author_name := COALESCE (disc_author_name it) (author_name r),
             cover_image_url := COALESCE (disc_cover_image_url it) (cover_image_url r),
             updated_at := now \<rparr>)"
    using fold_upsert_discovered_existing [of items it models r now] assms
    by (simp add: persistDiscovered_def)
  then show ?thesis
    by (auto simp: COALESCE_def split: option.splits)
qed

theorem persistDiscovered_later_sighting_witness:
  "distinct (map disc_id
     [\<lparr> disc_id = ''1'', disc_url = ''u'', disc_cover_image_url = Some ''c.png'',
        disc_title = None, disc_author_name = None \<rparr>]) \<and>
   (\<exists>r'. persistDiscovered ''t1''
        [\<lparr> disc_id = ''1'', disc_url = ''u'', disc_cover_image_url = Some ''c.png'',
           disc_title = None, disc_author_name = None \<rparr>]
        [''1'' \<mapsto> \<lparr> model_id = ''1'', url = ''u'', title = Some ''First title'',
           author_name = None, download_count = None, cover_image_url = None,
           description = None, model_created_at = ''t0'', updated_at = ''t0'' \<rparr>] ''1''
        = Some r' \<and>
      title r' = Some ''First title'' \<and> cover_image_url r' = Some ''c.png'')"
  using persistDiscovered_later_sighting
    [of "[\<lparr> disc_id = ''1'', disc_url = ''u'', disc_cover_image_url = Some ''c.png'',
           disc_title = None, disc_author_name = None \<rparr>]"
        "\<lparr> disc_id = ''1'', disc_url = ''u'', disc_cover_image_url = Some ''c.png'',
           disc_title = None, disc_author_name = None \<rparr>"
        "[''1'' \<mapsto> \<lparr> model_id = ''1'', url = ''u'', title = Some ''First title'',
           author_name = None, download_count = None, cover_image_url = None,
           description = None, model_created_at = ''t0'', updated_at = ''t0'' \<rparr>]"
        "\<lparr> model_id = ''1'', url = ''u'', title = Some ''First title'',
           author_name = None, download_count = None, cover_image_url = None,
           description = None, model_created_at = ''t0'', updated_at = ''t0'' \<rparr>"
        "''t1''"]
  by auto

subsection \<open>Recovery at process start\<close>

lemma latest_created_None: "latest_created rs = None \<longleftrightarrow> rs = []"
  by (induction rs) (auto split: option.splits)

lemma latest_created_Some:
  "latest_created rs = Some r \<Longrightarrow> r \<in> set rs \<and> (\<forall>r' \<in> set rs. created_at r' \<le> created_at r)"
proof (induction rs arbitrary: r)
  case Nil
  then show ?case by simp
next
  case (Cons a rs)
  show ?case
  proof (cases "latest_created rs")
    case None
    then have "rs = []" by (simp add: latest_created_None)
    then show ?thesis using Cons.prems by simp
  next
    case (Some b)
    note IH = Cons.IH [OF Some]
    show ?thesis
    proof (cases "created_at a < created_at b")
      case True
      then have "r = b" using Cons.prems Some by simp
      then show ?thesis using IH True by auto
    next
      case False
      then have "r = a" using Cons.prems Some by simp
      then show ?thesis using IH False by fastforce
    qed
  qed
qed

lemma latest_created_filter:
  "latest_created (filter Q rs) = Some r \<Longrightarrow>
     r \<in> set rs \<and> Q r \<and> (\<forall>r' \<in> set rs. Q r' \<longrightarrow> created_at r' \<le> created_at r)"
  using latest_created_Some [of "filter Q rs" r] by auto

lemma latest_created_filter_None:
  "latest_created (filter Q rs) = None \<Longrightarrow> \<forall>r \<in> set rs. \<not> Q r"
  by (simp add: latest_created_None filter_empty_conv)

lemma set_status_where_id_distinct:
  "distinct (map job_id rows) \<Longrightarrow> c \<in> set rows \<Longrightarrow>
   set_status_where_id st (job_id c) rows = map (\<lambda>r. if r = c then r\<lparr>status := st\<rparr> else r) rows"
  unfolding set_status_where_id_def
  by (rule map_cong) (auto simp: distinct_map inj_on_def)

text \<open>
  C7: at process start, for each job kind on its own: when the table has a job whose
  \<^verbatim>\<open>finished_at\<close> is null and whose status is queued or running, one such job \<open>c\<close> with
  the greatest \<^verbatim>\<open>created_at\<close> is reset to queued, and exactly one timer (200 ms) is set to
  run its loop; every other row, among them every row that is completed, failed or
  paused, is left as it is; when the table has no such job, nothing changes and no timer
  is set. Ids are the primary key of each table.
\<close>

theorem resume_recovers:
  assumes "distinct (map job_id (crawl_jobs db))" and "distinct (map job_id (label_jobs db))"
  shows "\<exists>C L.
    (case C of
       None \<Rightarrow> \<forall>r \<in> set (crawl_jobs db). \<not> unfinished_active r
     | Some c \<Rightarrow> c \<in> set (crawl_jobs db) \<and> unfinished_active c \<and>
         (\<forall>r \<in> set (crawl_jobs db). unfinished_active r \<longrightarrow> created_at r \<le> created_at c)) \<and>
    (case L of
       None \<Rightarrow> \<forall>r \<in> set (label_jobs db). \<not> unfinished_active r
     | Some l \<Rightarrow> l \<in> set (label_jobs db) \<and> unfinished_active l \<and>
         (\<forall>r \<in> set (label_jobs db). unfinished_active r \<longrightarrow> created_at r \<le> created_at l)) \<and>
    resume db =
      (\<lparr> crawl_jobs = map (\<lambda>r. if Some r = C then r\<lparr>status := Queued\<rparr> else r) (crawl_jobs db),
         label_jobs = map (\<lambda>r. if Some r = L then r\<lparr>status := Queued\<rparr> else r) (label_jobs db) \<rparr>,
       (case C of None \<Rightarrow> [] | Some c \<Rightarrow> [(200, RunCrawlJob (job_id c))]) @
       (case L of None \<Rightarrow> [] | Some l \<Rightarrow> [(200, RunLabelJob (job_id l))]))"
proof -
  define C where "C = latest_created (filter unfinished_active (crawl_jobs db))"
  define L where "L = latest_created (filter unfinished_active (label_jobs db))"
  have C_spec: "case C of
       None \<Rightarrow> \<forall>r \<in> set (crawl_jobs db). \<not> unfinished_active r
     | Some c \<Rightarrow> c \<in> set (crawl_jobs db) \<and> unfinished_active c \<and>
         (\<forall>r \<in> set (crawl_jobs db). unfinished_active r \<longrightarrow> created_at r \<le> created_at c)"
  proof (cases C)
    case None
    then show ?thesis
      using latest_created_filter_None [of unfinished_active "crawl_jobs db"]
      by (simp add: C_def)
  next
    case (Some c)
    then show ?thesis
      using latest_created_filter [of unfinished_active "crawl_jobs db" c]
      by (simp add: C_def)
  qed
  have L_spec: "case L of
       None \<Rightarrow> \<forall>r \<in> set (label_jobs db). \<not> unfinished_active r
     | Some l \<Rightarrow> l \<in> set (label_jobs db) \<and> unfinished_active l \<and>
         (\<forall>r \<in> set (label_jobs db). unfinished_active r \<longrightarrow> created_at r \<le> created_at l)"
  proof (cases L)
    case None
    then show ?thesis
      using latest_created_filter_None [of unfinished_active "label_jobs db"]
      by (simp add: L_def)
  next
    case (Some l)
    then show ?thesis
      using latest_created_filter [of unfinished_active "label_jobs db" l]
      by (simp add: L_def)
  qed
  have C_rows: "(case C of None \<Rightarrow> crawl_jobs db
        | Some c \<Rightarrow> set_status_where_id Queued (job_id c) (crawl_jobs db)) =
      map (\<lambda>r. if Some r = C then r\<lparr>status := Queued\<rparr> else r) (crawl_jobs db)"
  proof (cases C)
    case None
    then show ?thesis by (simp add: map_idI)
  next
    case (Some c)
    then have "c \<in> set (crawl_jobs db)" using C_spec by simp
    then show ?thesis
      using Some set_status_where_id_distinct [OF assms(1), of c Queued] by simp
  qed
  have L_rows: "(case L of None \<Rightarrow> label_jobs db
        | Some l \<Rightarrow> set_status_where_id Queued (job_id l) (label_jobs db)) =
      map (\<lambda>r. if Some r = L then r\<lparr>status := Queued\<rparr> else r) (label_jobs db)"
  proof (cases L)
    case None
    then show ?thesis by (simp add: map_idI)
  next
    case (Some l)
    then have "l \<in> set (label_jobs db)" using L_spec by simp
    then show ?thesis
      using Some set_status_where_id_distinct [OF assms(2), of l Queued] by simp
  qed
  have R: "resume db =
      (\<lparr> crawl_jobs = (case C of None \<Rightarrow> crawl_jobs db
            | Some c \<Rightarrow> set_status_where_id Queued (job_id c) (crawl_jobs db)),
         label_jobs = (case L of None \<Rightarrow> label_jobs db
            | Some l \<Rightarrow> set_status_where_id Queued (job_id l) (label_jobs db)) \<rparr>,
       (case C of None \<Rightarrow> [] | Some c \<Rightarrow> [(200, RunCrawlJob (job_id c))]) @
       (case L of None \<Rightarrow> [] | Some l \<Rightarrow> [(200, RunLabelJob (job_id l))]))"
    unfolding resume_def C_def L_def by (simp split: option.splits)
  show ?thesis
    apply (rule exI [of _ C], rule exI [of _ L])
    apply (intro conjI)
      apply (rule C_spec)
     apply (rule L_spec)
    apply (simp only: R C_rows L_rows)
    done
qed

theorem resume_recovers_witness:
  "distinct (map job_id
      [(new_crawl_job ''c1'' ''2024-01-01'' ''{}'')\<lparr>status := Completed, finished_at := Some ''2024-01-02''\<rparr>,
       (new_crawl_job ''c2'' ''2024-01-03'' ''{}'')\<lparr>status := Running\<rparr>]) \<and>
   distinct (map job_id [new_label_job ''l1'' ''2024-01-01'' ''{}'']) \<and>
   resume \<lparr> crawl_jobs =
      [(new_crawl_job ''c1'' ''2024-01-01'' ''{}'')\<lparr>status := Completed, finished_at := Some ''2024-01-02''\<rparr>,
       (new_crawl_job ''c2'' ''2024-01-03'' ''{}'')\<lparr>status := Running\<rparr>],
      label_jobs = [new_label_job ''l1'' ''2024-01-01'' ''{}''] \<rparr> =
     (\<lparr> crawl_jobs =
      [(new_crawl_job ''c1'' ''2024-01-01'' ''{}'')\<lparr>status := Completed, finished_at := Some ''2024-01-02''\<rparr>,
       (new_crawl_job ''c2'' ''2024-01-03'' ''{}'')\<lparr>status := Queued\<rparr>],
      label_jobs = [new_label_job ''l1'' ''2024-01-01'' ''{}''] \<rparr>,
      [(200, RunCrawlJob ''c2''), (200, RunLabelJob ''l1'')])"
  using resume_recovers [of "\<lparr> crawl_jobs =
      [(new_crawl_job ''c1'' ''2024-01-01'' ''{}'')\<lparr>status := Completed, finished_at := Some ''2024-01-02''\<rparr>,
       (new_crawl_job ''c2'' ''2024-01-03'' ''{}'')\<lparr>status := Running\<rparr>],
      label_jobs = [new_label_job ''l1'' ''2024-01-01'' ''{}''] \<rparr>"]
  by (simp add: resume_def new_crawl_job_def new_label_job_def unfinished_active_def
      set_status_where_id_def)

subsection \<open>Session cookie of a label run\<close>

text \<open>
  C10, as stated, fails where the latest crawl config parses and its \<^verbatim>\<open>cookieHeader\<close> is
  the empty string: the field is a string, the label run passes it on, and the context is
  opened with no cookie header all the same.
\<close>

theorem label_context_cookie_empty_counterexample:
  "label_cookieHeader (\<lambda>text. Some (JObject [(''cookieHeader'', JString '''')]))
      [new_crawl_job ''c1'' ''2024-01-01'' ''config''] = Some '''' \<and>
   label_context_cookie (\<lambda>text. Some (JObject [(''cookieHeader'', JString '''')]))
      [new_crawl_job ''c1'' ''2024-01-01'' ''config''] = None"
  by (simp add: label_context_cookie_def label_cookieHeader_def createContext_def)

text \<open>
  C10 (amended): the context of a label run is opened with the cookie header \<open>c\<close> exactly
  when \<open>c\<close> is not empty, the most recently created crawl job has a config that parses,
  and the parsed config has the string \<open>c\<close> as its \<^verbatim>\<open>cookieHeader\<close>; in every other case
  it is opened with no cookie header. The label job's own config is not consulted.
\<close>

theorem label_context_cookie_source:
  "(label_context_cookie JSON_parse rows = Some c) =
     (c \<noteq> [] \<and>
      (\<exists>latestCrawl parsed. latestCrawl \<in> set rows \<and>
         (\<forall>r \<in> set rows. created_at r \<le> created_at latestCrawl) \<and>
         latest_created rows = Some latestCrawl \<and>
         JSON_parse (config_json latestCrawl) = Some parsed \<and>
         member parsed ''cookieHeader'' = Some (JString c)))"
proof
  assume "label_context_cookie JSON_parse rows = Some c"
  then obtain l p where "c \<noteq> []" "latest_created rows = Some l"
    "JSON_parse (config_json l) = Some p" "member p ''cookieHeader'' = Some (JString c)"
    by (auto simp: label_context_cookie_def label_cookieHeader_def createContext_def
        split: option.splits json.splits if_splits)
  then show "c \<noteq> [] \<and>
      (\<exists>latestCrawl parsed. latestCrawl \<in> set rows \<and>
         (\<forall>r \<in> set rows. created_at r \<le> created_at latestCrawl) \<and>
         latest_created rows = Some latestCrawl \<and>
         JSON_parse (config_json latestCrawl) = Some parsed \<and>
         member parsed ''cookieHeader'' = Some (JString c))"
    using latest_created_Some [of rows l] by blast
next
  assume "c \<noteq> [] \<and>
      (\<exists>latestCrawl parsed. latestCrawl \<in> set rows \<and>
         (\<forall>r \<in> set rows. created_at r \<le> created_at latestCrawl) \<and>
         latest_created rows = Some latestCrawl \<and>
         JSON_parse (config_json latestCrawl) = Some parsed \<and>
         member parsed ''cookieHeader'' = Some (JString c))"
  then show "label_context_cookie JSON_parse rows = Some c"
    by (auto simp: label_context_cookie_def label_cookieHeader_def createContext_def)
qed

theorem label_context_cookie_source_witness:
  "label_context_cookie
      (\<lambda>text. if text = ''new'' then Some (JObject [(''cookieHeader'', JString ''cf_clearance=1'')])
         else None)
      [new_crawl_job ''c1'' ''2024-01-01'' ''old'', new_crawl_job ''c2'' ''2024-01-03'' ''new'']
     = Some ''cf_clearance=1'' \<and>
   created_at (new_crawl_job ''c1'' ''2024-01-01'' ''old'')
     \<le> created_at (new_crawl_job ''c2'' ''2024-01-03'' ''new'')"
  using label_context_cookie_source
    [of "\<lambda>text. if text = ''new'' then Some (JObject [(''cookieHeader'', JString ''cf_clearance=1'')])
         else None"
      "[new_crawl_job ''c1'' ''2024-01-01'' ''old'', new_crawl_job ''c2'' ''2024-01-03'' ''new'']"
      "''cf_clearance=1''"]
  by (simp add: new_crawl_job_def)

subsection \<open>The invariant of the job record\<close>

lemma fit_updateStatus_terminal:
  "st = Completed \<or> st = Failed \<Longrightarrow> (\<And>r. finished_at (patch r) \<noteq> None \<and> status (patch r) = status r) \<Longrightarrow>
   finished_iff_terminal (updateStatus st patch row)"
  by (cases row) (auto simp: finished_iff_terminal_def updateStatus_def)

lemma fit_counter:
  "finished_iff_terminal row \<Longrightarrow> (\<And>r. finished_at (f r) = finished_at r \<and> status (f r) = status r) \<Longrightarrow>
   finished_iff_terminal (map_option f row)"
  by (cases row) (auto simp: finished_iff_terminal_def)

lemma fit_flip:
  "unfinished row \<Longrightarrow> st \<noteq> Completed \<Longrightarrow> st \<noteq> Failed \<Longrightarrow>
   (\<And>r. finished_at (patch r) = finished_at r \<and> status (patch r) = status r) \<Longrightarrow>
   finished_iff_terminal (updateStatus st patch row)"
  by (cases row) (auto simp: finished_iff_terminal_def updateStatus_def unfinished_def)

lemma fit_clear_history:
  "finished_iff_terminal row \<Longrightarrow> finished_iff_terminal (clear_history now message row)"
  by (cases row) (auto simp: finished_iff_terminal_def clear_history_def)

lemma fit_pause: "unfinished row \<Longrightarrow> finished_iff_terminal (pause_job row)"
  by (cases row) (auto simp: finished_iff_terminal_def pause_job_def unfinished_def)

lemma fit_resume: "unfinished row \<Longrightarrow> finished_iff_terminal (resume_job row)"
  by (cases row) (auto simp: finished_iff_terminal_def resume_job_def unfinished_def)

lemma fit_catch_handler:
  "finished_iff_terminal (job s) \<Longrightarrow> finished_iff_terminal (job (catch_handler now message s))"
  by (simp add: catch_handler_def fit_updateStatus_terminal)

lemma fit_wake_up: "job (wake_up s) = job s"
  by (simp add: wake_up_def split: option.splits)

lemma fit_worker:
  "finished_iff_terminal (job s) \<Longrightarrow> finished_iff_terminal (job (worker S now w s))"
  by (auto simp: worker_def getNext_def scraped_def fit_updateStatus_terminal fit_counter
      split: wstate.splits proceed.splits outcome.splits)

lemma fit_step:
  assumes "finished_iff_terminal (job s)" and "status_flip e \<longrightarrow> unfinished (job s)"
  shows "finished_iff_terminal (job (step P S e s))"
proof (cases e)
  case (Start now)
  then show ?thesis using assms
    by (auto simp: start_def fit_flip split: option.splits)
next
  case (WorkerStep w now)
  then show ?thesis using assms by (simp add: fit_worker)
next
  case (Poll now)
  then show ?thesis using assms
    by (auto simp: poll_def fit_catch_handler split: proceed.splits)
next
  case (PushBatch items)
  then show ?thesis using assms by (simp add: push_batch_def push_def fit_wake_up)
next
  case (CountDiscovered n)
  then show ?thesis using assms by (simp add: count_discovered_def fit_counter)
next
  case (ListBlocked now)
  then show ?thesis using assms by (simp add: list_blocked_def fit_updateStatus_terminal)
next
  case EndOfInput
  then show ?thesis using assms by (simp add: end_of_input_def fit_wake_up)
next
  case (Join now)
  then show ?thesis using assms
    by (simp add: join_def fit_catch_handler fit_updateStatus_terminal)
next
  case (Throw now message)
  then show ?thesis using assms by (simp add: throw_def fit_catch_handler)
next
  case (ClearHistory now message)
  then show ?thesis using assms by (simp add: fit_clear_history)
qed (use assms in \<open>simp_all add: spawn_def fit_pause fit_resume\<close>)

lemma fit_label_catch_handler:
  "finished_iff_terminal (ljob s) \<Longrightarrow> finished_iff_terminal (ljob (label_catch_handler now message s))"
  by (simp add: label_catch_handler_def fit_updateStatus_terminal)

lemma fit_label_next:
  assumes "finished_iff_terminal (ljob s)" and "lmain s = LInit \<longrightarrow> unfinished (ljob s)"
  shows "finished_iff_terminal (ljob (label_next P L now s))"
  using assms
  by (cases "lmain s")
    (auto simp: label_next_def fit_flip fit_updateStatus_terminal fit_counter
      fit_label_catch_handler
      split: option.splits list.splits proceed.splits outcome.splits)

lemma fit_label_step:
  assumes "finished_iff_terminal (ljob s)" and "label_status_flip e s \<longrightarrow> unfinished (ljob s)"
  shows "finished_iff_terminal (ljob (label_step P L e s))"
proof (cases e)
  case (LNext now)
  then show ?thesis using assms by (simp add: fit_label_next)
next
  case (LSelect candidates)
  then show ?thesis using assms by (simp add: label_select_def fit_counter)
next
  case (LThrow now message)
  then show ?thesis using assms
    by (simp add: label_throw_def fit_label_catch_handler split: lstate.splits)
next
  case (LClearHistory now message)
  then show ?thesis using assms by (simp add: fit_clear_history)
qed (use assms in \<open>simp_all add: fit_pause fit_resume\<close>)

text \<open>
  C8 (amended): a newly created job has \<^verbatim>\<open>finished_at\<close> null and a status that is neither
  completed nor failed, and every step of a crawl run, of a label run and of an outside
  actor keeps "\<^verbatim>\<open>finished_at\<close> is non-null iff status is completed or failed", provided the
  three operations that write the status alone (the start of a run, pause, resume) are
  applied to a job that is not finished.
\<close>

theorem finished_iff_terminal_preserved:
  "finished_iff_terminal (Some (new_crawl_job i now cfg)) \<and>
   finished_iff_terminal (Some (new_label_job i now cfg)) \<and>
   (finished_iff_terminal (job s) \<and> (status_flip e \<longrightarrow> unfinished (job s)) \<longrightarrow>
      finished_iff_terminal (job (step P S e s))) \<and>
   (finished_iff_terminal (ljob t) \<and> (label_status_flip e' t \<longrightarrow> unfinished (ljob t)) \<longrightarrow>
      finished_iff_terminal (ljob (label_step P' L e' t)))"
  using fit_step [of s e P S] fit_label_step [of t e' P' L]
  by (simp add: finished_iff_terminal_def new_crawl_job_def new_label_job_def)

subsection \<open>Evaluating runs\<close>

lemma spawned_workers_1: "spawned_workers (Fin 1) = Suc 0"
  by (simp add: spawned_workers_def concurrency_def js_or_def)

lemma spawned_workers_2: "spawned_workers (Fin 2) = Suc (Suc 0)"
  by (simp add: spawned_workers_def concurrency_def js_or_def)

lemmas crawl_eval = init_def new_crawl_job_def start_def spawn_def worker_def getNext_def
  scraped_def push_batch_def push_def wake_up_def end_of_input_def join_def catch_handler_def
  updateStatus_def waitIfPausedOrCancelled_def poll_def count_discovered_def list_blocked_def
  throw_def pause_job_def resume_job_def clear_history_def spawned_workers_1 spawned_workers_2

lemmas label_eval = new_label_job_def label_next_def label_select_def label_throw_def
  label_catch_handler_def updateStatus_def waitIfPausedOrCancelled_def pause_job_def
  resume_job_def clear_history_def

text \<open>
  C8, as stated, fails at the pause endpoint: a crawl run with one worker and no item
  completes (the invariant holds), then the job is paused; the status is paused and
  \<^verbatim>\<open>finished_at\<close> is still set.
\<close>

theorem pause_after_completion_counterexample:
  "job (run (\<lambda>text. Some (Fin 1)) (\<lambda>u. Succeeded)
       [Start ''t1'', Spawn, EndOfInput, WorkerStep 0 ''t2'', WorkerStep 0 ''t2'', Join ''t3'']
       (init (Some (new_crawl_job ''crawl_1'' ''t0'' ''config'')))) =
     Some ((new_crawl_job ''crawl_1'' ''t0'' ''config'')
        \<lparr>status := Completed, started_at := Some ''t1'', finished_at := Some ''t3''\<rparr>) \<and>
   finished_iff_terminal (Some ((new_crawl_job ''crawl_1'' ''t0'' ''config'')
        \<lparr>status := Completed, started_at := Some ''t1'', finished_at := Some ''t3''\<rparr>)) \<and>
   \<not> finished_iff_terminal (job (run (\<lambda>text. Some (Fin 1)) (\<lambda>u. Succeeded)
       [Start ''t1'', Spawn, EndOfInput, WorkerStep 0 ''t2'', WorkerStep 0 ''t2'', Join ''t3'', Pause]
       (init (Some (new_crawl_job ''crawl_1'' ''t0'' ''config'')))))"
  by (simp add: crawl_eval finished_iff_terminal_def)

theorem finished_iff_terminal_preserved_witness:
  "finished_iff_terminal (job (init (Some (new_crawl_job ''crawl_1'' ''t0'' ''config'')))) \<and>
   unfinished (job (init (Some (new_crawl_job ''crawl_1'' ''t0'' ''config'')))) \<and>
   finished_iff_terminal (job (step (\<lambda>text. Some (Fin 1)) (\<lambda>u. Succeeded) (Start ''t1'')
      (init (Some (new_crawl_job ''crawl_1'' ''t0'' ''config''))))) \<and>
   finished_iff_terminal (ljob (label_step (\<lambda>text. Some JNull) (\<lambda>u. Succeeded) LPause
      \<lparr>ljob = Some (new_label_job ''label_1'' ''t0'' ''config''), lmain = LCheck [''1'']\<rparr>))"
  using finished_iff_terminal_preserved
    [of "''crawl_1''" "''t0''" "''config''" "init (Some (new_crawl_job ''crawl_1'' ''t0'' ''config''))"
      "Start ''t1''" "\<lambda>text. Some (Fin 1)" "\<lambda>u. Succeeded"
      "\<lparr>ljob = Some (new_label_job ''label_1'' ''t0'' ''config''), lmain = LCheck [''1'']\<rparr>"
      LPause "\<lambda>text. Some JNull" "\<lambda>u. Succeeded"]
  by (simp add: init_def new_crawl_job_def new_label_job_def unfinished_def
      finished_iff_terminal_def)

subsection \<open>Hard block\<close>

text \<open>
  C1 at a failing input: one worker, one item, discovery over before the item is scraped,
  and the Page Extractor throws \<^verbatim>\<open>CLOUDFLARE_BLOCKED\<close>. The worker marks the job failed
  and returns; with that \<^verbatim>\<open>workerPromise\<close> is fulfilled and the body of runCrawlJob marks
  the job completed.
\<close>

theorem hard_block_overwritten_by_completed:
  "job (run (\<lambda>text. Some (Fin 1))
        (\<lambda>u. if u = ''u1'' then Thrown ''CLOUDFLARE_BLOCKED'' else Succeeded)
        [Start ''t1'', Spawn,
         PushBatch [\<lparr>disc_id = ''1'', disc_url = ''u1'', disc_cover_image_url = None,
                     disc_title = None, disc_author_name = None\<rparr>],
         WorkerStep 0 ''t2'', WorkerStep 0 ''t2'', EndOfInput, WorkerStep 0 ''t3'']
        (init (Some (new_crawl_job ''crawl_1'' ''t0'' ''config'')))) =
     Some ((new_crawl_job ''crawl_1'' ''t0'' ''config'')
        \<lparr>status := Failed, started_at := Some ''t1'', finished_at := Some ''t3'',
          last_error := Some ''CLOUDFLARE_BLOCKED''\<rparr>) \<and>
   job (run (\<lambda>text. Some (Fin 1))
        (\<lambda>u. if u = ''u1'' then Thrown ''CLOUDFLARE_BLOCKED'' else Succeeded)
        [Start ''t1'', Spawn,
         PushBatch [\<lparr>disc_id = ''1'', disc_url = ''u1'', disc_cover_image_url = None,
                     disc_title = None, disc_author_name = None\<rparr>],
         WorkerStep 0 ''t2'', WorkerStep 0 ''t2'', EndOfInput, WorkerStep 0 ''t3'', Join ''t4'']
        (init (Some (new_crawl_job ''crawl_1'' ''t0'' ''config'')))) =
     Some ((new_crawl_job ''crawl_1'' ''t0'' ''config'')
        \<lparr>status := Completed, started_at := Some ''t1'', finished_at := Some ''t4'',
          last_error := Some ''CLOUDFLARE_BLOCKED''\<rparr>)"
  by (simp add: crawl_eval)

text \<open>
  With two workers, the second one past its poll when the first meets the hard block: a
  batch pushed afterwards is taken from the queue and counted as processed.
\<close>

lemma item_taken_after_hard_block:
  "run (\<lambda>text. Some (Fin 2))
        (\<lambda>u. if u = ''u1'' then Thrown ''CLOUDFLARE_BLOCKED'' else Succeeded)
        [Start ''t1'', Spawn,
         PushBatch [\<lparr>disc_id = ''1'', disc_url = ''u1'', disc_cover_image_url = None,
                     disc_title = None, disc_author_name = None\<rparr>],
         WorkerStep 0 ''t2'', WorkerStep 0 ''t2'', WorkerStep 1 ''t2'', WorkerStep 1 ''t2'',
         WorkerStep 0 ''t3'',
         PushBatch [\<lparr>disc_id = ''2'', disc_url = ''u2'', disc_cover_image_url = None,
                     disc_title = None, disc_author_name = None\<rparr>],
         WorkerStep 1 ''t4'', WorkerStep 1 ''t5'']
        (init (Some (new_crawl_job ''crawl_1'' ''t0'' ''config''))) =
     \<lparr>job = Some ((new_crawl_job ''crawl_1'' ''t0'' ''config'')
        \<lparr>status := Failed, started_at := Some ''t1'', finished_at := Some ''t3'',
          processed_count := 1, last_error := Some ''CLOUDFLARE_BLOCKED''\<rparr>),
      main = MDiscovering, config_concurrency = Fin 2,
      queue = [(''1'', ''u1''), (''2'', ''u2'')], queueIndex = 2, discoveryDone = False,
      wake = None, workers = [WReturned, WCheck], listening = True\<rparr>"
  by (simp add: crawl_eval)

subsection \<open>The wake slot\<close>

lemma run_append: "run P S (es @ es') s = run P S es' (run P S es s)"
  by (induction es arbitrary: s) auto

lemma lost_wake_up: "lost w s \<Longrightarrow> lost w (wake_up s)"
  by (auto simp: lost_def wake_up_def nth_list_update split: option.splits)

lemma lost_main: "lost w s \<Longrightarrow> m \<noteq> MInit \<Longrightarrow> m \<noteq> MStarted \<Longrightarrow> lost w (s\<lparr>main := m\<rparr>)"
  by (simp add: lost_def)

lemma lost_job:
  "lost w s \<Longrightarrow> map_option status row \<noteq> Some Completed \<Longrightarrow> lost w (s\<lparr>job := row\<rparr>)"
  by (simp add: lost_def)

lemma lost_catch_handler: "lost w s \<Longrightarrow> lost w (catch_handler now message s)"
  by (cases "job s") (auto simp: lost_def catch_handler_def updateStatus_def)

lemma lost_worker: "lost w s \<Longrightarrow> lost w (worker S now w' s)"
  by (cases "job s"; cases "w' = w")
    (auto simp: lost_def worker_def getNext_def scraped_def updateStatus_def nth_list_update
      split: wstate.splits proceed.splits outcome.splits)

lemma lost_list_all: "lost w s \<Longrightarrow> \<not> list_all (\<lambda>x. x = WReturned) (workers s)"
  by (auto simp: lost_def list_all_length)

lemma lost_step: "lost w s \<Longrightarrow> lost w (step P S e s)"
proof (cases e)
  case (Start now)
  assume "lost w s"
  then show ?thesis using Start by (simp add: start_def lost_def)
next
  case Spawn
  assume "lost w s"
  then show ?thesis using Spawn by (simp add: spawn_def lost_def)
next
  case (WorkerStep w' now)
  assume "lost w s"
  then show ?thesis using WorkerStep by (simp add: lost_worker)
next
  case (Poll now)
  assume "lost w s"
  then show ?thesis using Poll by (simp add: poll_def lost_catch_handler split: proceed.splits)
next
  case (PushBatch items)
  assume l: "lost w s"
  then have "lost w (s\<lparr>queue := queue s @ map (\<lambda>it. (disc_id it, disc_url it)) items\<rparr>)"
    by (simp add: lost_def)
  then show ?thesis using PushBatch l by (simp add: push_batch_def push_def lost_wake_up)
next
  case (CountDiscovered n)
  assume "lost w s"
  then show ?thesis using CountDiscovered
    by (cases "job s") (auto simp: count_discovered_def lost_def)
next
  case (ListBlocked now)
  assume "lost w s"
  then show ?thesis using ListBlocked
    by (cases "job s") (auto simp: list_blocked_def lost_def updateStatus_def)
next
  case EndOfInput
  assume l: "lost w s"
  then have "lost w (s\<lparr>discoveryDone := True\<rparr>)"
    by (simp add: lost_def)
  then have "lost w (wake_up (s\<lparr>discoveryDone := True\<rparr>))"
    by (rule lost_wake_up)
  then show ?thesis using EndOfInput l by (simp add: end_of_input_def lost_main)
next
  case (Join now)
  assume l: "lost w s"
  then show ?thesis using Join lost_list_all [OF l]
    by (simp add: join_def lost_catch_handler)
next
  case (Throw now message)
  assume "lost w s"
  then show ?thesis using Throw by (simp add: throw_def lost_catch_handler)
next
  case Pause
  assume "lost w s"
  then show ?thesis using Pause by (cases "job s") (auto simp: lost_def pause_job_def)
next
  case Resume
  assume "lost w s"
  then show ?thesis using Resume by (cases "job s") (auto simp: lost_def resume_job_def)
next
  case (ClearHistory now message)
  assume "lost w s"
  then show ?thesis using ClearHistory
    by (cases "job s") (auto simp: lost_def clear_history_def)
qed

lemma lost_run: "lost w s \<Longrightarrow> lost w (run P S es s)"
  by (induction es arbitrary: s) (auto simp: lost_step)

text \<open>
  C4 at a failing input: two workers, both suspended in \<^verbatim>\<open>getNext\<close> before the first
  push. The second overwrote the resolver of the first, so the push wakes the second
  alone; the end-of-input signal wakes the second alone; and whatever happens afterwards,
  the first worker stays suspended and the job is never marked completed.
\<close>

theorem blocked_consumer_never_woken:
  "run (\<lambda>text. Some (Fin 2)) (\<lambda>u. Succeeded)
      [Start ''t1'', Spawn, WorkerStep 0 ''t2'', WorkerStep 0 ''t2'', WorkerStep 1 ''t2'',
       WorkerStep 1 ''t2'',
       PushBatch [\<lparr>disc_id = ''1'', disc_url = ''u1'', disc_cover_image_url = None,
                   disc_title = None, disc_author_name = None\<rparr>]]
      (init (Some (new_crawl_job ''crawl_1'' ''t0'' ''config''))) =
     \<lparr>job = Some ((new_crawl_job ''crawl_1'' ''t0'' ''config'')
          \<lparr>status := Running, started_at := Some ''t1''\<rparr>),
      main = MDiscovering, config_concurrency = Fin 2, queue = [(''1'', ''u1'')],
      queueIndex = 0, discoveryDone = False, wake = None, workers = [WBlocked, WGetNext], listening = True\<rparr> \<and>
   run (\<lambda>text. Some (Fin 2)) (\<lambda>u. Succeeded)
      [Start ''t1'', Spawn, WorkerStep 0 ''t2'', WorkerStep 0 ''t2'', WorkerStep 1 ''t2'',
       WorkerStep 1 ''t2'',
       PushBatch [\<lparr>disc_id = ''1'', disc_url = ''u1'', disc_cover_image_url = None,
                   disc_title = None, disc_author_name = None\<rparr>],
       WorkerStep 1 ''t3'', WorkerStep 1 ''t4'', WorkerStep 1 ''t5'', WorkerStep 1 ''t5'',
       EndOfInput, WorkerStep 1 ''t6'', Join ''t7'']
      (init (Some (new_crawl_job ''crawl_1'' ''t0'' ''config''))) =
     \<lparr>job = Some ((new_crawl_job ''crawl_1'' ''t0'' ''config'')
          \<lparr>status := Running, started_at := Some ''t1'', processed_count := 1\<rparr>),
      main = MAwaitWorkers, config_concurrency = Fin 2, queue = [(''1'', ''u1'')],
      queueIndex = 1, discoveryDone = True, wake = None, workers = [WBlocked, WReturned], listening = True\<rparr> \<and>
   (\<forall>es. workers (run (\<lambda>text. Some (Fin 2)) (\<lambda>u. Succeeded)
      ([Start ''t1'', Spawn, WorkerStep 0 ''t2'', WorkerStep 0 ''t2'', WorkerStep 1 ''t2'',
       WorkerStep 1 ''t2'',
       PushBatch [\<lparr>disc_id = ''1'', disc_url = ''u1'', disc_cover_image_url = None,
                   disc_title = None, disc_author_name = None\<rparr>],
       WorkerStep 1 ''t3'', WorkerStep 1 ''t4'', WorkerStep 1 ''t5'', WorkerStep 1 ''t5'',
       EndOfInput, WorkerStep 1 ''t6'', Join ''t7''] @ es)
      (init (Some (new_crawl_job ''crawl_1'' ''t0'' ''config'')))) ! 0 = WBlocked \<and>
     map_option status (job (run (\<lambda>text. Some (Fin 2)) (\<lambda>u. Succeeded)
      ([Start ''t1'', Spawn, WorkerStep 0 ''t2'', WorkerStep 0 ''t2'', WorkerStep 1 ''t2'',
       WorkerStep 1 ''t2'',
       PushBatch [\<lparr>disc_id = ''1'', disc_url = ''u1'', disc_cover_image_url = None,
                   disc_title = None, disc_author_name = None\<rparr>],
       WorkerStep 1 ''t3'', WorkerStep 1 ''t4'', WorkerStep 1 ''t5'', WorkerStep 1 ''t5'',
       EndOfInput, WorkerStep 1 ''t6'', Join ''t7''] @ es)
      (init (Some (new_crawl_job ''crawl_1'' ''t0'' ''config''))))) \<noteq> Some Completed)"
proof (intro conjI allI)
  let ?P = "\<lambda>text::string. Some (Fin 2)"
  let ?S = "\<lambda>u::string. Succeeded"
  let ?d = "\<lparr>disc_id = ''1'', disc_url = ''u1'', disc_cover_image_url = None,
                   disc_title = None, disc_author_name = None\<rparr>"
  let ?es = "[Start ''t1'', Spawn, WorkerStep 0 ''t2'', WorkerStep 0 ''t2'', WorkerStep 1 ''t2'',
       WorkerStep 1 ''t2'', PushBatch [?d],
       WorkerStep 1 ''t3'', WorkerStep 1 ''t4'', WorkerStep 1 ''t5'', WorkerStep 1 ''t5'',
       EndOfInput, WorkerStep 1 ''t6'', Join ''t7'']"
  let ?s0 = "init (Some (new_crawl_job ''crawl_1'' ''t0'' ''config''))"
  let ?final = "\<lparr>job = Some ((new_crawl_job ''crawl_1'' ''t0'' ''config'')
          \<lparr>status := Running, started_at := Some ''t1'', processed_count := 1\<rparr>),
      main = MAwaitWorkers, config_concurrency = Fin 2, queue = [(''1'', ''u1'')],
      queueIndex = 1, discoveryDone = True, wake = None, workers = [WBlocked, WReturned], listening = True\<rparr>"
  show "run ?P ?S [Start ''t1'', Spawn, WorkerStep 0 ''t2'', WorkerStep 0 ''t2'',
       WorkerStep 1 ''t2'', WorkerStep 1 ''t2'', PushBatch [?d]] ?s0 =
     \<lparr>job = Some ((new_crawl_job ''crawl_1'' ''t0'' ''config'')
          \<lparr>status := Running, started_at := Some ''t1''\<rparr>),
      main = MDiscovering, config_concurrency = Fin 2, queue = [(''1'', ''u1'')],
      queueIndex = 0, discoveryDone = False, wake = None, workers = [WBlocked, WGetNext], listening = True\<rparr>"
    by (simp add: crawl_eval)
  show final: "run ?P ?S ?es ?s0 = ?final"
    by (simp add: crawl_eval)
  have "lost 0 ?final"
    by (simp add: lost_def new_crawl_job_def)
  then have forever: "lost 0 (run ?P ?S es ?final)" for es
    by (rule lost_run)
  fix es
  show "workers (run ?P ?S (?es @ es) ?s0) ! 0 = WBlocked"
    using forever [of es] unfolding run_append final by (simp add: lost_def)
  show "map_option status (job (run ?P ?S (?es @ es) ?s0)) \<noteq> Some Completed"
    using forever [of es] unfolding run_append final by (simp add: lost_def)
qed

subsection \<open>Cancellation\<close>

lemma cancelled_iff:
  "(waitIfPausedOrCancelled row = Cancelled) =
     (row = None \<or> (\<exists>r. row = Some r \<and> status r \<noteq> Running \<and> status r \<noteq> Paused))"
  by (cases row) (auto simp: waitIfPausedOrCancelled_def)

lemma returned_main_idle:
  "main s = MReturned \<Longrightarrow> body_event e \<Longrightarrow> step P S e s = s"
  by (cases e)
    (simp_all add: start_def spawn_def poll_def list_blocked_def end_of_input_def join_def
      throw_def)

lemma label_returned_idle:
  "lmain s = LReturned \<Longrightarrow> own_event e \<Longrightarrow> label_step P L e s = s"
  by (cases e) (simp_all add: label_next_def label_select_def label_throw_def)

lemma label_returned_run:
  "lmain s = LReturned \<Longrightarrow> \<forall>e \<in> set es. own_event e \<Longrightarrow> label_run P L es s = s"
  by (induction es arbitrary: s) (simp_all add: label_returned_idle)

text \<open>
  C6, as stated, fails for a crawl run, whose other threads go on after one of them has met
  the cancellation. Here the job is cleared by a new crawl while the one worker is
  scraping; the body polls, finds the status failed and returns, writing nothing. The
  worker's scrape then fails: it adds one to \<^verbatim>\<open>failed_count\<close> and puts its own message
  over the \<^verbatim>\<open>last_error\<close> the new crawl had set. A batch counted by the response handler
  at that point adds to \<^verbatim>\<open>discovered_count\<close>.
\<close>

theorem cancelled_run_still_writes_counterexample:
  "run (\<lambda>text. Some (Fin 1)) (\<lambda>u. Thrown ''Target closed'')
      [Start ''t1'', Spawn,
       PushBatch [\<lparr>disc_id = ''1'', disc_url = ''u1'', disc_cover_image_url = None,
                   disc_title = None, disc_author_name = None\<rparr>],
       WorkerStep 0 ''t2'', WorkerStep 0 ''t2'',
       ClearHistory ''t3'' ''CLEARED_BY_NEW_CRAWL'', Poll ''t4'']
      (init (Some (new_crawl_job ''crawl_1'' ''t0'' ''config''))) =
     \<lparr>job = Some ((new_crawl_job ''crawl_1'' ''t0'' ''config'')
          \<lparr>status := Failed, started_at := Some ''t1'', finished_at := Some ''t3'',
            last_error := Some ''CLEARED_BY_NEW_CRAWL''\<rparr>),
      main = MReturned, config_concurrency = Fin 1, queue = [(''1'', ''u1'')],
      queueIndex = 1, discoveryDone = False, wake = None,
      workers = [WScraping (''1'', ''u1'')], listening = True\<rparr> \<and>
   job (run (\<lambda>text. Some (Fin 1)) (\<lambda>u. Thrown ''Target closed'')
      [Start ''t1'', Spawn,
       PushBatch [\<lparr>disc_id = ''1'', disc_url = ''u1'', disc_cover_image_url = None,
                   disc_title = None, disc_author_name = None\<rparr>],
       WorkerStep 0 ''t2'', WorkerStep 0 ''t2'',
       ClearHistory ''t3'' ''CLEARED_BY_NEW_CRAWL'', Poll ''t4'', WorkerStep 0 ''t5'']
      (init (Some (new_crawl_job ''crawl_1'' ''t0'' ''config'')))) =
     Some ((new_crawl_job ''crawl_1'' ''t0'' ''config'')
       \<lparr>status := Failed, started_at := Some ''t1'', finished_at := Some ''t3'',
         failed_count := 1, last_error := Some ''Target closed''\<rparr>) \<and>
   job (run (\<lambda>text. Some (Fin 1)) (\<lambda>u. Thrown ''Target closed'')
      [Start ''t1'', Spawn,
       PushBatch [\<lparr>disc_id = ''1'', disc_url = ''u1'', disc_cover_image_url = None,
                   disc_title = None, disc_author_name = None\<rparr>],
       WorkerStep 0 ''t2'', WorkerStep 0 ''t2'',
       ClearHistory ''t3'' ''CLEARED_BY_NEW_CRAWL'', Poll ''t4'', CountDiscovered 1]
      (init (Some (new_crawl_job ''crawl_1'' ''t0'' ''config'')))) =
     Some ((new_crawl_job ''crawl_1'' ''t0'' ''config'')
       \<lparr>status := Failed, started_at := Some ''t1'', finished_at := Some ''t3'',
         last_error := Some ''CLEARED_BY_NEW_CRAWL'', discovered_count := 1\<rparr>)"
  by (simp add: crawl_eval)

text \<open>
  C6 (amended): the poll raises \<^verbatim>\<open>JOB_CANCELLED\<close> exactly when the job row is missing or
  its status is neither running nor paused, and the thread that meets it ends without
  writing anything to the job row. In a crawl run: the body returns through the handler
  and the state is otherwise as it was; a worker is rejected, and a rejected worker takes
  no further step; at \<^verbatim>\<open>await workerPromise\<close> the rejection of a worker makes the body
  return, again with the row untouched; and once the body has returned no step of the
  body changes anything. In a label run, which has one thread, the thread returns with
  the row untouched and nothing it could still do changes the state. Nothing is said of
  the other threads of a crawl run, the workers past their own poll and the response
  handler.
\<close>

theorem cancelled_thread_writes_nothing:
  "(waitIfPausedOrCancelled row = Cancelled) =
     (row = None \<or> (\<exists>r. row = Some r \<and> status r \<noteq> Running \<and> status r \<noteq> Paused)) \<and>
   (waitIfPausedOrCancelled (job s) = Cancelled \<longrightarrow>
      (main s = MDiscovering \<longrightarrow> step P S (Poll now) s = s\<lparr>main := MReturned\<rparr>) \<and>
      (w < length (workers s) \<and> workers s ! w = WCheck \<longrightarrow>
         step P S (WorkerStep w now) s = s\<lparr>workers := (workers s)[w := WCancelled]\<rparr>)) \<and>
   (w < length (workers s) \<and> workers s ! w = WCancelled \<longrightarrow>
      step P S (WorkerStep w now) s = s) \<and>
   (main s = MAwaitWorkers \<and> WCancelled \<in> set (workers s) \<longrightarrow>
      step P S (Join now) s = s\<lparr>main := MReturned\<rparr>) \<and>
   (main s = MReturned \<and> body_event e \<longrightarrow> step P S e s = s) \<and>
   (waitIfPausedOrCancelled (ljob t) = Cancelled \<and> lmain t = LCheck (c # cs) \<longrightarrow>
      label_step P' L (LNext now) t = t\<lparr>lmain := LReturned\<rparr>) \<and>
   (lmain t = LReturned \<and> (\<forall>e \<in> set es. own_event e) \<longrightarrow> label_run P' L es t = t)"
proof (intro conjI impI)
  show "(waitIfPausedOrCancelled row = Cancelled) =
     (row = None \<or> (\<exists>r. row = Some r \<and> status r \<noteq> Running \<and> status r \<noteq> Paused))"
    by (rule cancelled_iff)
next
  assume "waitIfPausedOrCancelled (job s) = Cancelled" and "main s = MDiscovering"
  then show "step P S (Poll now) s = s\<lparr>main := MReturned\<rparr>"
    by (simp add: poll_def catch_handler_def)
next
  assume "waitIfPausedOrCancelled (job s) = Cancelled"
    and "w < length (workers s) \<and> workers s ! w = WCheck"
  then show "step P S (WorkerStep w now) s = s\<lparr>workers := (workers s)[w := WCancelled]\<rparr>"
    by (simp add: worker_def)
next
  assume "w < length (workers s) \<and> workers s ! w = WCancelled"
  then show "step P S (WorkerStep w now) s = s"
    by (simp add: worker_def)
next
  assume "main s = MAwaitWorkers \<and> WCancelled \<in> set (workers s)"
  then show "step P S (Join now) s = s\<lparr>main := MReturned\<rparr>"
    by (simp add: join_def catch_handler_def)
next
  assume "main s = MReturned \<and> body_event e"
  then show "step P S e s = s"
    by (simp add: returned_main_idle)
next
  assume "waitIfPausedOrCancelled (ljob t) = Cancelled \<and> lmain t = LCheck (c # cs)"
  then show "label_step P' L (LNext now) t = t\<lparr>lmain := LReturned\<rparr>"
    by (simp add: label_next_def label_catch_handler_def)
next
  assume "lmain t = LReturned \<and> (\<forall>e \<in> set es. own_event e)"
  then show "label_run P' L es t = t"
    by (simp add: label_returned_run)
qed

theorem cancelled_thread_writes_nothing_witness:
  "waitIfPausedOrCancelled (job
      \<lparr>job = Some ((new_crawl_job ''crawl_1'' ''t0'' ''config'')
          \<lparr>status := Failed, started_at := Some ''t1'', finished_at := Some ''t2'',
            last_error := Some ''CLEARED_BY_NEW_CRAWL''\<rparr>),
       main = MDiscovering, config_concurrency = Fin 1, queue = [], queueIndex = 0,
       discoveryDone = False, wake = None, workers = [WCheck], listening = True\<rparr>) = Cancelled \<and>
   step (\<lambda>text. Some (Fin 1)) (\<lambda>u. Succeeded) (Poll ''t3'')
      \<lparr>job = Some ((new_crawl_job ''crawl_1'' ''t0'' ''config'')
          \<lparr>status := Failed, started_at := Some ''t1'', finished_at := Some ''t2'',
            last_error := Some ''CLEARED_BY_NEW_CRAWL''\<rparr>),
       main = MDiscovering, config_concurrency = Fin 1, queue = [], queueIndex = 0,
       discoveryDone = False, wake = None, workers = [WCheck], listening = True\<rparr> =
      \<lparr>job = Some ((new_crawl_job ''crawl_1'' ''t0'' ''config'')
          \<lparr>status := Failed, started_at := Some ''t1'', finished_at := Some ''t2'',
            last_error := Some ''CLEARED_BY_NEW_CRAWL''\<rparr>),
       main = MReturned, config_concurrency = Fin 1, queue = [], queueIndex = 0,
       discoveryDone = False, wake = None, workers = [WCheck], listening = True\<rparr> \<and>
   step (\<lambda>text. Some (Fin 1)) (\<lambda>u. Succeeded) (WorkerStep 0 ''t3'')
      \<lparr>job = Some ((new_crawl_job ''crawl_1'' ''t0'' ''config'')
          \<lparr>status := Failed, started_at := Some ''t1'', finished_at := Some ''t2'',
            last_error := Some ''CLEARED_BY_NEW_CRAWL''\<rparr>),
       main = MDiscovering, config_concurrency = Fin 1, queue = [], queueIndex = 0,
       discoveryDone = False, wake = None, workers = [WCheck], listening = True\<rparr> =
      \<lparr>job = Some ((new_crawl_job ''crawl_1'' ''t0'' ''config'')
          \<lparr>status := Failed, started_at := Some ''t1'', finished_at := Some ''t2'',
            last_error := Some ''CLEARED_BY_NEW_CRAWL''\<rparr>),
       main = MDiscovering, config_concurrency = Fin 1, queue = [], queueIndex = 0,
       discoveryDone = False, wake = None, workers = [WCancelled], listening = True\<rparr> \<and>
   step (\<lambda>text. Some (Fin 1)) (\<lambda>u. Succeeded) (Join ''t4'')
      \<lparr>job = None, main = MAwaitWorkers, config_concurrency = Fin 1, queue = [],
       queueIndex = 0, discoveryDone = True, wake = None, workers = [WCancelled], listening = True\<rparr> =
      \<lparr>job = None, main = MReturned, config_concurrency = Fin 1, queue = [],
       queueIndex = 0, discoveryDone = True, wake = None, workers = [WCancelled], listening = True\<rparr> \<and>
   step (\<lambda>text. Some (Fin 1)) (\<lambda>u. Succeeded) (Join ''t5'')
      \<lparr>job = None, main = MReturned, config_concurrency = Fin 1, queue = [],
       queueIndex = 0, discoveryDone = True, wake = None, workers = [WCancelled], listening = True\<rparr> =
      \<lparr>job = None, main = MReturned, config_concurrency = Fin 1, queue = [],
       queueIndex = 0, discoveryDone = True, wake = None, workers = [WCancelled], listening = True\<rparr> \<and>
   label_step (\<lambda>text. Some JNull) (\<lambda>u. Succeeded) (LNext ''t3'')
      \<lparr>ljob = Some ((new_label_job ''label_1'' ''t0'' ''config'')
          \<lparr>status := Failed, started_at := Some ''t1'', finished_at := Some ''t2'',
            last_error := Some ''CLEARED_BY_NEW_CRAWL''\<rparr>),
       lmain = LCheck [''1'', ''2'']\<rparr> =
      \<lparr>ljob = Some ((new_label_job ''label_1'' ''t0'' ''config'')
          \<lparr>status := Failed, started_at := Some ''t1'', finished_at := Some ''t2'',
            last_error := Some ''CLEARED_BY_NEW_CRAWL''\<rparr>),
       lmain = LReturned\<rparr> \<and>
   label_run (\<lambda>text. Some JNull) (\<lambda>u. Succeeded) [LNext ''t4'', LThrow ''t5'' ''late'']
      \<lparr>ljob = Some ((new_label_job ''label_1'' ''t0'' ''config'')
          \<lparr>status := Failed, started_at := Some ''t1'', finished_at := Some ''t2'',
            last_error := Some ''CLEARED_BY_NEW_CRAWL''\<rparr>),
       lmain = LReturned\<rparr> =
      \<lparr>ljob = Some ((new_label_job ''label_1'' ''t0'' ''config'')
          \<lparr>status := Failed, started_at := Some ''t1'', finished_at := Some ''t2'',
            last_error := Some ''CLEARED_BY_NEW_CRAWL''\<rparr>),
       lmain = LReturned\<rparr>"
  using cancelled_thread_writes_nothing
    [of "job \<lparr>job = Some ((new_crawl_job ''crawl_1'' ''t0'' ''config'')
          \<lparr>status := Failed, started_at := Some ''t1'', finished_at := Some ''t2'',
            last_error := Some ''CLEARED_BY_NEW_CRAWL''\<rparr>),
       main = MDiscovering, config_concurrency = Fin 1, queue = [], queueIndex = 0,
       discoveryDone = False, wake = None, workers = [WCheck], listening = True\<rparr>"
      "\<lparr>job = Some ((new_crawl_job ''crawl_1'' ''t0'' ''config'')
          \<lparr>status := Failed, started_at := Some ''t1'', finished_at := Some ''t2'',
            last_error := Some ''CLEARED_BY_NEW_CRAWL''\<rparr>),
       main = MDiscovering, config_concurrency = Fin 1, queue = [], queueIndex = 0,
       discoveryDone = False, wake = None, workers = [WCheck], listening = True\<rparr>"
      "\<lambda>text. Some (Fin 1)" "\<lambda>u. Succeeded" "''t3''" 0 "Poll ''t3''"
      "\<lparr>ljob = Some ((new_label_job ''label_1'' ''t0'' ''config'')
          \<lparr>status := Failed, started_at := Some ''t1'', finished_at := Some ''t2'',
            last_error := Some ''CLEARED_BY_NEW_CRAWL''\<rparr>),
       lmain = LCheck [''1'', ''2'']\<rparr>" "''1''" "[''2'']" "\<lambda>text. Some JNull" "\<lambda>u. Succeeded" "[]"]
    cancelled_thread_writes_nothing
    [of "None :: crawl_job_row option"
      "\<lparr>job = None, main = MAwaitWorkers, config_concurrency = Fin 1, queue = [],
       queueIndex = 0, discoveryDone = True, wake = None, workers = [WCancelled], listening = True\<rparr>"
      "\<lambda>text. Some (Fin 1)" "\<lambda>u. Succeeded" "''t4''" 0 "Join ''t4''"
      "\<lparr>ljob = Some ((new_label_job ''label_1'' ''t0'' ''config'')
          \<lparr>status := Failed, started_at := Some ''t1'', finished_at := Some ''t2'',
            last_error := Some ''CLEARED_BY_NEW_CRAWL''\<rparr>),
       lmain = LReturned\<rparr>" "''1''" "[''2'']" "\<lambda>text. Some JNull" "\<lambda>u. Succeeded"
      "[LNext ''t4'', LThrow ''t5'' ''late'']"]
    cancelled_thread_writes_nothing
    [of "None :: crawl_job_row option"
      "\<lparr>job = None, main = MReturned, config_concurrency = Fin 1, queue = [],
       queueIndex = 0, discoveryDone = True, wake = None, workers = [WCancelled], listening = True\<rparr>"
      "\<lambda>text. Some (Fin 1)" "\<lambda>u. Succeeded" "''t5''" 0 "Join ''t5''"
      "\<lparr>ljob = None, lmain = LReturned\<rparr>" "''1''" "[''2'']" "\<lambda>text. Some JNull" "\<lambda>u. Succeeded"
      "[]"]
  by (simp add: crawl_eval label_eval)

subsection \<open>Accounting of the items taken from the queue\<close>
























subsection \<open>Pause and resume\<close>















subsection \<open>Counters of a run that completes\<close>

































end
